theory Spec2Isabelle
  imports Complex_Main "HOL-Library.Product_Lexorder" "HOL-Library.Log_Nat"
begin

section \<open>Numbers, errors and containers\<close>

text \<open>
  Prices, sizes, scores and timestamps are Python numbers. They are modelled as exact
  rationals: every comparison against a literal threshold and every sum, product and
  quotient of the source is computed without rounding error. The rounding of floats is
  modelled apart, in the section on double-precision arithmetic, for the one function whose
  property depends on it. Timestamps are seconds on the UTC clock; the clock reading
  \<open>datetime.now\<close> is a parameter of each function reading it.
\<close>

datatype error = ZeroDivisionError | IndexError

text \<open>Python's \<open>a / b\<close> on numbers raises when the divisor is zero.\<close>

definition py_div :: "rat \<Rightarrow> rat \<Rightarrow> error + rat" where
  "py_div a b = (if b = 0 then Inl ZeroDivisionError else Inr (a / b))"

text \<open>Python's \<open>xs[i]\<close> for a non-negative index.\<close>

definition py_index :: "'a list \<Rightarrow> nat \<Rightarrow> error + 'a" where
  "py_index xs i = (if i < length xs then Inr (xs ! i) else Inl IndexError)"

text \<open>\<open>deque(maxlen=m).append(x)\<close>: the oldest entries are evicted beyond the capacity.\<close>

definition deque_append :: "nat \<Rightarrow> 'a list \<Rightarrow> 'a \<Rightarrow> 'a list" where
  "deque_append maxlen d x = (let d' = d @ [x] in drop (length d' - maxlen) d')"

text \<open>
  Python's \<open>round(x, n)\<close> rounds to \<open>n\<close> decimals, a tie going to the even neighbour.
\<close>

definition round_half_even :: "rat \<Rightarrow> int" where
  "round_half_even x =
     (let f = \<lfloor>x\<rfloor>; d = x - of_int f
      in if d < 1 / 2 then f else if 1 / 2 < d then f + 1 else if even f then f else f + 1)"

definition py_round :: "rat \<Rightarrow> nat \<Rightarrow> rat" where
  "py_round x n = of_int (round_half_even (x * 10 ^ n)) / 10 ^ n"

text \<open>\<open>np.mean\<close> of a non-empty list.\<close>

definition mean :: "rat list \<Rightarrow> rat" where
  "mean xs = sum_list xs / of_nat (length xs)"

section \<open>HiddenOrderDetector\<close>

datatype trade_side = buy | sell

datatype book_side = bid | ask

datatype strength = HIGH | MEDIUM

record trade =
  t_price :: rat
  t_size :: rat
  t_side :: trade_side
  t_timestamp :: rat

record level_sample =
  ls_timestamp :: rat
  ls_size :: rat

record book_snapshot =
  bs_timestamp :: rat
  bs_bids :: "(rat \<times> rat) list"
  bs_asks :: "(rat \<times> rat) list"

record thresholds =
  volume_threshold :: rat
  price_movement_min :: rat
  refresh_count :: nat
  divergence_ratio :: rat

datatype sensitivity = low | medium | high

text \<open>\<open>_get_thresholds\<close>: the table of the three profiles.\<close>

fun get_thresholds :: "sensitivity \<Rightarrow> thresholds" where
  "get_thresholds low =
     \<lparr>volume_threshold = 5, price_movement_min = 2 / 100, refresh_count = 5,
      divergence_ratio = 4\<rparr>"
| "get_thresholds medium =
     \<lparr>volume_threshold = 3, price_movement_min = 15 / 1000, refresh_count = 3,
      divergence_ratio = 3\<rparr>"
| "get_thresholds high =
     \<lparr>volume_threshold = 2, price_movement_min = 1 / 100, refresh_count = 2,
      divergence_ratio = 2\<rparr>"

text \<open>
  The detector's state. The deques are lists, oldest entry first; the dictionary
  \<open>price_level_history\<close> is an association list in insertion order, the order in which
  \<open>items()\<close> enumerates it.
\<close>

record detector =
  d_trades :: "trade list"
  d_trade_timestamps :: "rat list"
  d_order_book_snapshots :: "book_snapshot list"
  d_price_level_history :: "((book_side \<times> rat) \<times> level_sample list) list"
  d_price_history :: "rat list"
  d_timestamp_history :: "rat list"
  d_thresholds :: thresholds

definition new_detector :: "sensitivity \<Rightarrow> detector" where
  "new_detector s =
     \<lparr>d_trades = [], d_trade_timestamps = [], d_order_book_snapshots = [],
      d_price_level_history = [], d_price_history = [], d_timestamp_history = [],
      d_thresholds = get_thresholds s\<rparr>"

definition add_trade :: "rat \<Rightarrow> rat \<Rightarrow> trade_side \<Rightarrow> rat \<Rightarrow> detector \<Rightarrow> detector" where
  "add_trade p sz sd ts d =
     d\<lparr>d_trades :=
          deque_append 1000 (d_trades d)
            \<lparr>t_price = p, t_size = sz, t_side = sd, t_timestamp = ts\<rparr>,
       d_trade_timestamps := deque_append 1000 (d_trade_timestamps d) ts\<rparr>"

definition add_price_update :: "rat \<Rightarrow> rat \<Rightarrow> detector \<Rightarrow> detector" where
  "add_price_update p ts d =
     d\<lparr>d_price_history := deque_append 200 (d_price_history d) p,
       d_timestamp_history := deque_append 200 (d_timestamp_history d) ts\<rparr>"

text \<open>
  \<open>self.price_level_history[key].append(sample)\<close> on a
  \<open>defaultdict(lambda: deque(maxlen=50))\<close>: a new key is entered at the end.
\<close>

fun level_history_append ::
  "(book_side \<times> rat) \<Rightarrow> level_sample \<Rightarrow> ((book_side \<times> rat) \<times> level_sample list) list \<Rightarrow>
   ((book_side \<times> rat) \<times> level_sample list) list" where
  "level_history_append k s [] = [(k, deque_append 50 [] s)]"
| "level_history_append k s ((k', h) # rest) =
     (if k' = k then (k', deque_append 50 h s) # rest
      else (k', h) # level_history_append k s rest)"

text \<open>\<open>add_order_book_snapshot\<close>, called with the two sides as lists of pairs.\<close>

definition add_order_book_snapshot ::
  "(rat \<times> rat) list \<Rightarrow> (rat \<times> rat) list \<Rightarrow> rat \<Rightarrow> detector \<Rightarrow> detector" where
  "add_order_book_snapshot bids asks ts d =
     (let snap = \<lparr>bs_timestamp = ts, bs_bids = bids, bs_asks = asks\<rparr>;
          h1 = foldl (\<lambda>h (p, sz).
                 level_history_append (bid, p) \<lparr>ls_timestamp = ts, ls_size = sz\<rparr> h)
                 (d_price_level_history d) bids;
          h2 = foldl (\<lambda>h (p, sz).
                 level_history_append (ask, p) \<lparr>ls_timestamp = ts, ls_size = sz\<rparr> h)
                 h1 asks
      in d\<lparr>d_order_book_snapshots := deque_append 100 (d_order_book_snapshots d) snap,
           d_price_level_history := h2\<rparr>)"

record volume_metrics =
  buy_volume :: rat
  sell_volume :: rat
  net_volume :: rat
  buy_trades :: nat
  sell_trades :: nat

text \<open>\<open>calculate_volume_metrics\<close>; \<open>None\<close> is the source's "no data".\<close>

definition calculate_volume_metrics :: "rat \<Rightarrow> rat \<Rightarrow> detector \<Rightarrow> volume_metrics option" where
  "calculate_volume_metrics now seconds d =
     (if d_trades d = [] then None
      else let cutoff_time = now - seconds;
               recent_trades = filter (\<lambda>t. cutoff_time \<le> t_timestamp t) (d_trades d)
           in if recent_trades = [] then None
              else let bv = sum_list (map t_size (filter (\<lambda>t. t_side t = buy) recent_trades));
                       sv = sum_list (map t_size (filter (\<lambda>t. t_side t = sell) recent_trades))
                   in Some \<lparr>buy_volume = bv, sell_volume = sv, net_volume = bv - sv,
                            buy_trades = length (filter (\<lambda>t. t_side t = buy) recent_trades),
                            sell_trades = length (filter (\<lambda>t. t_side t = sell) recent_trades)\<rparr>)"

text \<open>\<open>calculate_price_change\<close>: the indexing and the division can raise.\<close>

definition calculate_price_change :: "rat \<Rightarrow> rat \<Rightarrow> detector \<Rightarrow> error + rat option" where
  "calculate_price_change now seconds d =
     (if length (d_price_history d) < 2 then Inr None
      else let cutoff_time = now - seconds;
               recent_indices =
                 filter (\<lambda>i. cutoff_time \<le> d_timestamp_history d ! i)
                   [0..<length (d_timestamp_history d)]
           in if length recent_indices < 2 then Inr None
              else case py_index (d_price_history d) (hd recent_indices) of
                     Inl e \<Rightarrow> Inl e
                   | Inr start_price \<Rightarrow>
                       (case py_index (d_price_history d) (last recent_indices) of
                          Inl e \<Rightarrow> Inl e
                        | Inr end_price \<Rightarrow>
                            (case py_div (end_price - start_price) start_price of
                               Inl e \<Rightarrow> Inl e
                             | Inr c \<Rightarrow> Inr (Some c))))"

record iceberg =
  ice_price :: rat
  ice_side :: book_side
  ice_avg_size :: rat
  ice_refills :: nat
  ice_strength :: strength

text \<open>
  The refill loop of \<open>detect_iceberg_orders\<close>:
  \<open>for i in range(1, len(sizes) - 1)\<close> with the counter \<open>refills\<close>.
\<close>

definition is_refill :: "rat list \<Rightarrow> nat \<Rightarrow> bool" where
  "is_refill sizes i \<longleftrightarrow>
     sizes ! i < sizes ! (i - 1) * (5 / 10) \<and> sizes ! (i - 1) * (8 / 10) < sizes ! (i + 1)"

definition count_refills :: "rat list \<Rightarrow> nat" where
  "count_refills sizes =
     foldl (\<lambda>refills i. if is_refill sizes i then refills + 1 else refills) 0
       [1..<length sizes - 1]"

text \<open>The body of the loop over \<open>price_level_history.items()\<close>.\<close>

definition iceberg_of_level ::
  "thresholds \<Rightarrow> (book_side \<times> rat) \<times> level_sample list \<Rightarrow> iceberg list" where
  "iceberg_of_level th item =
     (case item of ((sd, p), history) \<Rightarrow>
        if length history < 5 then []
        else let sizes = map ls_size history; refills = count_refills sizes
             in if refresh_count th \<le> refills
                then [\<lparr>ice_price = p, ice_side = sd, ice_avg_size = mean sizes,
                       ice_refills = refills,
                       ice_strength = (if 5 \<le> refills then HIGH else MEDIUM)\<rparr>]
                else [])"

definition detect_iceberg_orders :: "detector \<Rightarrow> iceberg list" where
  "detect_iceberg_orders d =
     (if length (d_order_book_snapshots d) < 5 then []
      else concat (map (iceberg_of_level (d_thresholds d)) (d_price_level_history d)))"

record hidden_party =
  hp_strength :: strength
  hp_volume :: rat
  hp_price_change :: rat

record analysis =
  an_buy_volume :: rat
  an_sell_volume :: rat
  an_price_change_pct :: rat

text \<open>
  The result dictionary of \<open>detect_hidden_orders\<close>; an \<open>analysis\<close> of \<open>None\<close> is the
  empty dictionary the source starts from.
\<close>

record hidden_results =
  hidden_buyer :: "hidden_party option"
  hidden_seller :: "hidden_party option"
  icebergs :: "iceberg list"
  analysis :: "analysis option"

definition empty_results :: hidden_results where
  "empty_results =
     \<lparr>hidden_buyer = None, hidden_seller = None, icebergs = [], analysis = None\<rparr>"

text \<open>
  \<open>detect_hidden_orders\<close>. The two helper calls read the clock one after the other:
  \<open>now_v\<close> is the reading of \<open>calculate_volume_metrics\<close>, \<open>now_p\<close> that of
  \<open>calculate_price_change\<close>.
\<close>

definition detect_hidden_orders :: "rat \<Rightarrow> rat \<Rightarrow> detector \<Rightarrow> error + hidden_results" where
  "detect_hidden_orders now_v now_p d =
     (if length (d_trades d) < 10 \<or> length (d_price_history d) < 10 then Inr empty_results
      else case calculate_price_change now_p 30 d of
             Inl e \<Rightarrow> Inl e
           | Inr price_change \<Rightarrow>
               (let results =
                  (case (calculate_volume_metrics now_v 30 d, price_change) of
                     (Some vm, Some pc) \<Rightarrow>
                       (let r1 = empty_results
                              \<lparr>analysis := Some \<lparr>an_buy_volume = buy_volume vm,
                                                 an_sell_volume = sell_volume vm,
                                                 an_price_change_pct = pc * 100\<rparr>\<rparr>;
                            r2 = (if buy_volume vm * (15 / 10) < sell_volume vm \<and> - (5 / 1000) < pc
                                  then r1\<lparr>hidden_buyer :=
                                         Some \<lparr>hp_strength = (if 0 < pc then HIGH else MEDIUM),
                                               hp_volume = sell_volume vm,
                                               hp_price_change = pc\<rparr>\<rparr>
                                  else r1)
                        in if sell_volume vm * (15 / 10) < buy_volume vm \<and> pc < 5 / 1000
                           then r2\<lparr>hidden_seller :=
                                  Some \<lparr>hp_strength = (if pc < 0 then HIGH else MEDIUM),
                                        hp_volume = buy_volume vm,
                                        hp_price_change = pc\<rparr>\<rparr>
                           else r2)
                   | _ \<Rightarrow> empty_results)
                in Inr (results\<lparr>icebergs := detect_iceberg_orders d\<rparr>)))"

section \<open>SignalGenerator\<close>

datatype market_session = PREMARKET | REGULAR | AFTERHOURS | CLOSED

datatype signal = BUY | SELL | NEUTRAL

text \<open>
  The feature dictionary: one optional entry for each key the source writes or reads, an
  absent key being \<open>None\<close>. The keys \<open>bid_price_i\<close>, \<open>bid_size_i\<close> (and the ask ones) are
  the list of pairs \<open>f_bid_top\<close> (\<open>f_ask_top\<close>), entry \<open>i\<close> holding both.
\<close>

record features =
  f_timestamp :: "rat option"
  f_session :: "market_session option"
  f_microprice :: "rat option"
  f_mid_price :: "rat option"
  f_spread :: "rat option"
  f_spread_bps :: "rat option"
  f_total_bid_volume_5 :: "rat option"
  f_total_ask_volume_5 :: "rat option"
  f_volume_imbalance :: "rat option"
  f_weighted_bid_pressure :: "rat option"
  f_weighted_ask_pressure :: "rat option"
  f_weighted_imbalance :: "rat option"
  f_queue_imbalance :: "rat option"
  f_bid_depth_10 :: "rat option"
  f_ask_depth_10 :: "rat option"
  f_bid_levels :: "nat option"
  f_ask_levels :: "nat option"
  f_best_bid :: "rat option"
  f_best_ask :: "rat option"
  f_best_bid_size :: "rat option"
  f_best_ask_size :: "rat option"
  f_size_imbalance_top :: "rat option"
  f_bid_top :: "(rat \<times> rat) list"
  f_ask_top :: "(rat \<times> rat) list"
  f_session_warning :: "string option option"

definition empty_features :: features where
  "empty_features =
     \<lparr>f_timestamp = None, f_session = None, f_microprice = None, f_mid_price = None,
      f_spread = None, f_spread_bps = None, f_total_bid_volume_5 = None,
      f_total_ask_volume_5 = None, f_volume_imbalance = None,
      f_weighted_bid_pressure = None, f_weighted_ask_pressure = None,
      f_weighted_imbalance = None, f_queue_imbalance = None, f_bid_depth_10 = None,
      f_ask_depth_10 = None, f_bid_levels = None, f_ask_levels = None, f_best_bid = None,
      f_best_ask = None, f_best_bid_size = None, f_best_ask_size = None,
      f_size_imbalance_top = None, f_bid_top = [], f_ask_top = [],
      f_session_warning = None\<rparr>"

text \<open>\<open>d.get(key, default)\<close>.\<close>

definition get_default :: "'a option \<Rightarrow> 'a \<Rightarrow> 'a" where
  "get_default v dflt = (case v of None \<Rightarrow> dflt | Some x \<Rightarrow> x)"

record signal_generator =
  sg_lookback_window :: nat
  sg_price_history :: "rat list"
  sg_feature_history :: "features list"
  sg_support_levels :: "rat list"
  sg_resistance_levels :: "rat list"

definition new_signal_generator :: "nat \<Rightarrow> signal_generator" where
  "new_signal_generator w =
     \<lparr>sg_lookback_window = w, sg_price_history = [], sg_feature_history = [],
      sg_support_levels = [], sg_resistance_levels = []\<rparr>"

definition add_features :: "features \<Rightarrow> signal_generator \<Rightarrow> signal_generator" where
  "add_features f g =
     (let g1 = (case f_microprice f of
                  None \<Rightarrow> g
                | Some m \<Rightarrow>
                    g\<lparr>sg_price_history :=
                        deque_append (sg_lookback_window g) (sg_price_history g) m\<rparr>)
      in g1\<lparr>sg_feature_history :=
              deque_append (sg_lookback_window g) (sg_feature_history g1) f\<rparr>)"

text \<open>The loop of \<open>_cluster_levels\<close> over \<open>levels[1:]\<close>, and its last flush.\<close>

fun cluster_loop :: "rat \<Rightarrow> rat list \<Rightarrow> rat list \<Rightarrow> rat list \<Rightarrow> error + rat list" where
  "cluster_loop tolerance [] current_cluster clusters =
     Inr (if current_cluster \<noteq> [] then clusters @ [mean current_cluster] else clusters)"
| "cluster_loop tolerance (level # rest) current_cluster clusters =
     (case py_div \<bar>level - last current_cluster\<bar> (last current_cluster) of
        Inl e \<Rightarrow> Inl e
      | Inr r \<Rightarrow>
          if r < tolerance
          then cluster_loop tolerance rest (current_cluster @ [level]) clusters
          else cluster_loop tolerance rest [level] (clusters @ [mean current_cluster]))"

definition cluster_levels :: "rat \<Rightarrow> rat list \<Rightarrow> error + rat list" where
  "cluster_levels tolerance levels =
     (if levels = [] then Inr []
      else let sorted = sort levels in cluster_loop tolerance (tl sorted) [hd sorted] [])"

definition local_minimum :: "rat list \<Rightarrow> nat \<Rightarrow> bool" where
  "local_minimum prices i \<longleftrightarrow>
     prices ! i < prices ! (i - 1) \<and> prices ! i < prices ! (i - 2) \<and>
     prices ! i < prices ! (i + 1) \<and> prices ! i < prices ! (i + 2)"

definition local_maximum :: "rat list \<Rightarrow> nat \<Rightarrow> bool" where
  "local_maximum prices i \<longleftrightarrow>
     prices ! (i - 1) < prices ! i \<and> prices ! (i - 2) < prices ! i \<and>
     prices ! (i + 1) < prices ! i \<and> prices ! (i + 2) < prices ! i"

text \<open>
  \<open>find_support_resistance\<close> returns the pair of level lists and stores it in the
  generator; the early return leaves the stored lists as they are.
\<close>

definition find_support_resistance ::
  "signal_generator \<Rightarrow> error + (signal_generator \<times> rat list \<times> rat list)" where
  "find_support_resistance g =
     (if length (sg_price_history g) < 20 then Inr (g, [], [])
      else let prices = sg_price_history g;
               idx = [2..<length prices - 2];
               support = map (\<lambda>i. prices ! i) (filter (local_minimum prices) idx);
               resistance = map (\<lambda>i. prices ! i) (filter (local_maximum prices) idx)
           in case (if support \<noteq> [] then cluster_levels (1 / 100) support else Inr []) of
                Inl e \<Rightarrow> Inl e
              | Inr sl \<Rightarrow>
                  (case (if resistance \<noteq> [] then cluster_levels (1 / 100) resistance
                         else Inr []) of
                     Inl e \<Rightarrow> Inl e
                   | Inr rl \<Rightarrow>
                       Inr (g\<lparr>sg_support_levels := sl, sg_resistance_levels := rl\<rparr>, sl, rl)))"

text \<open>
  The entries of the list \<open>reasons\<close>. Each constructor is one of the message templates of
  \<open>generate_signal\<close> and carries the value the template formats.
\<close>

datatype reason =
    No_data
  | Strong_buy_pressure rat
  | Moderate_buy_pressure rat
  | Strong_sell_pressure rat
  | Moderate_sell_pressure rat
  | Weighted_buy_imbalance rat
  | Weighted_sell_imbalance rat
  | Wide_spread rat
  | Near_support rat
  | Near_resistance rat
  | Hidden_buyer_detected strength
  | Hidden_seller_detected strength
  | Iceberg_buy rat
  | Iceberg_sell rat
  | Session_caution market_session

text \<open>The result dictionary; the "No data" result has no \<open>score\<close> and no \<open>price\<close>.\<close>

record signal_result =
  sr_signal :: signal
  sr_confidence :: rat
  sr_reasons :: "reason list"
  sr_score :: "rat option"
  sr_price :: "rat option"

text \<open>
  The six numbered blocks of \<open>generate_signal\<close>, each a function of the running
  \<open>(signal_score, reasons)\<close>.
\<close>

definition rule_queue_imbalance :: "rat \<Rightarrow> rat \<times> reason list \<Rightarrow> rat \<times> reason list" where
  "rule_queue_imbalance queue_imb sr =
     (case sr of (signal_score, reasons) \<Rightarrow>
        if 3 / 10 < queue_imb then (signal_score + 3, reasons @ [Strong_buy_pressure queue_imb])
        else if 15 / 100 < queue_imb
        then (signal_score + 1, reasons @ [Moderate_buy_pressure queue_imb])
        else if queue_imb < - (3 / 10)
        then (signal_score - 3, reasons @ [Strong_sell_pressure queue_imb])
        else if queue_imb < - (15 / 100)
        then (signal_score - 1, reasons @ [Moderate_sell_pressure queue_imb])
        else (signal_score, reasons))"

definition rule_weighted_imbalance :: "rat \<Rightarrow> rat \<times> reason list \<Rightarrow> rat \<times> reason list" where
  "rule_weighted_imbalance weighted_imb sr =
     (case sr of (signal_score, reasons) \<Rightarrow>
        if 2 / 10 < weighted_imb
        then (signal_score + 1, reasons @ [Weighted_buy_imbalance weighted_imb])
        else if weighted_imb < - (2 / 10)
        then (signal_score - 1, reasons @ [Weighted_sell_imbalance weighted_imb])
        else (signal_score, reasons))"

definition rule_spread :: "rat \<Rightarrow> rat \<times> reason list \<Rightarrow> rat \<times> reason list" where
  "rule_spread spread_bps sr =
     (case sr of (signal_score, reasons) \<Rightarrow>
        if 50 < spread_bps then (signal_score * (7 / 10), reasons @ [Wide_spread spread_bps])
        else (signal_score, reasons))"

text \<open>\<open>min(levels, key=lambda x: abs(x - current_price))\<close>: the first minimal element.\<close>

definition nearest :: "rat \<Rightarrow> rat list \<Rightarrow> rat" where
  "nearest current_price levels =
     foldl (\<lambda>best x. if \<bar>x - current_price\<bar> < \<bar>best - current_price\<bar> then x else best)
       (hd levels) (tl levels)"

definition rule_support_resistance ::
  "rat \<Rightarrow> rat list \<Rightarrow> rat list \<Rightarrow> rat \<times> reason list \<Rightarrow> error + (rat \<times> reason list)" where
  "rule_support_resistance current_price support resistance sr =
     (case sr of (signal_score, reasons) \<Rightarrow>
        if support \<noteq> [] \<and> resistance \<noteq> []
        then let nearest_support = nearest current_price support;
                 nearest_resistance = nearest current_price resistance
             in case py_div \<bar>current_price - nearest_support\<bar> current_price of
                  Inl e \<Rightarrow> Inl e
                | Inr ds \<Rightarrow>
                    (let sr1 = (if ds < 5 / 1000
                                then (signal_score + 2, reasons @ [Near_support nearest_support])
                                else (signal_score, reasons))
                     in case py_div \<bar>current_price - nearest_resistance\<bar> current_price of
                          Inl e \<Rightarrow> Inl e
                        | Inr dr \<Rightarrow>
                            Inr (if dr < 5 / 1000
                                 then (fst sr1 - 2, snd sr1 @ [Near_resistance nearest_resistance])
                                 else sr1))
        else Inr (signal_score, reasons))"

definition rule_iceberg :: "rat \<times> reason list \<Rightarrow> iceberg \<Rightarrow> rat \<times> reason list" where
  "rule_iceberg sr ice =
     (case sr of (signal_score, reasons) \<Rightarrow>
        if ice_side ice = bid then (signal_score + 1, reasons @ [Iceberg_buy (ice_price ice)])
        else (signal_score - 1, reasons @ [Iceberg_sell (ice_price ice)]))"

definition rule_hidden_orders ::
  "hidden_results option \<Rightarrow> rat \<times> reason list \<Rightarrow> rat \<times> reason list" where
  "rule_hidden_orders hidden_order_results sr =
     (case hidden_order_results of
        None \<Rightarrow> sr
      | Some hr \<Rightarrow>
          (let sr1 = (case hidden_buyer hr of
                        None \<Rightarrow> sr
                      | Some hb \<Rightarrow> (fst sr + 2, snd sr @ [Hidden_buyer_detected (hp_strength hb)]));
               sr2 = (case hidden_seller hr of
                        None \<Rightarrow> sr1
                      | Some hs \<Rightarrow>
                          (fst sr1 - 2, snd sr1 @ [Hidden_seller_detected (hp_strength hs)]))
           in foldl rule_iceberg sr2 (take 2 (icebergs hr))))"

definition rule_session :: "market_session \<Rightarrow> rat \<times> reason list \<Rightarrow> rat \<times> reason list" where
  "rule_session session sr =
     (case sr of (signal_score, reasons) \<Rightarrow>
        if session = PREMARKET \<or> session = AFTERHOURS
        then (signal_score * (8 / 10), reasons @ [Session_caution session])
        else (signal_score, reasons))"

text \<open>The block "Generate final signal" and the returned dictionary.\<close>

definition final_signal :: "rat \<Rightarrow> rat \<times> reason list \<Rightarrow> signal_result" where
  "final_signal current_price sr =
     (case sr of (signal_score, reasons) \<Rightarrow>
        (let sc = (if 3 \<le> signal_score then (BUY, min (signal_score / 8 * 100) 100)
                   else if signal_score \<le> - 3 then (SELL, min (\<bar>signal_score\<bar> / 8 * 100) 100)
                   else (NEUTRAL, 30))
         in \<lparr>sr_signal = fst sc, sr_confidence = py_round (snd sc) 1, sr_reasons = reasons,
             sr_score = Some signal_score, sr_price = Some current_price\<rparr>))"

definition no_data_result :: signal_result where
  "no_data_result =
     \<lparr>sr_signal = NEUTRAL, sr_confidence = 0, sr_reasons = [No_data], sr_score = None,
      sr_price = None\<rparr>"

text \<open>
  \<open>generate_signal\<close>. The argument \<open>features\<close> is \<open>None\<close> or a dictionary; an empty
  dictionary is falsy as \<open>None\<close> is. The generator is read through
  \<open>find_support_resistance\<close>, whose update of the stored levels is the only state change.
\<close>

definition generate_signal ::
  "signal_generator \<Rightarrow> features option \<Rightarrow> hidden_results option \<Rightarrow> error + signal_result" where
  "generate_signal g features hidden_order_results =
     (case features of
        None \<Rightarrow> Inr no_data_result
      | Some f \<Rightarrow>
          if f = empty_features then Inr no_data_result
          else let current_price = get_default (f_microprice f) (get_default (f_mid_price f) 0);
                   sr1 = rule_queue_imbalance (get_default (f_queue_imbalance f) 0) (0, []);
                   sr2 = rule_weighted_imbalance (get_default (f_weighted_imbalance f) 0) sr1;
                   sr3 = rule_spread (get_default (f_spread_bps f) 0) sr2
               in (case find_support_resistance g of
                     Inl e \<Rightarrow> Inl e
                   | Inr found \<Rightarrow>
                       (case rule_support_resistance current_price (fst (snd found))
                               (snd (snd found)) sr3 of
                          Inl e \<Rightarrow> Inl e
                        | Inr sr4 \<Rightarrow>
                            Inr (final_signal current_price
                                   (rule_session (get_default (f_session f) REGULAR)
                                      (rule_hidden_orders hidden_order_results sr4))))))"

section \<open>UnifiedLevel2System\<close>

text \<open>
  \<open>get_market_session\<close> reads the wall clock of US/Eastern: the weekday (Monday is 0) and
  the time of day, here in seconds since midnight.
\<close>

record et_clock =
  weekday :: nat
  current_time :: rat

definition get_market_session :: "et_clock \<Rightarrow> market_session" where
  "get_market_session c =
     (if 5 \<le> weekday c then CLOSED
      else if current_time c < 4 * 3600 then CLOSED
      else if 4 * 3600 \<le> current_time c \<and> current_time c < 9 * 3600 + 30 * 60 then PREMARKET
      else if 9 * 3600 + 30 * 60 \<le> current_time c \<and> current_time c < 16 * 3600 then REGULAR
      else if 16 * 3600 \<le> current_time c \<and> current_time c < 20 * 3600 then AFTERHOURS
      else CLOSED)"

text \<open>One row of \<open>ticker.domBids\<close> or \<open>ticker.domAsks\<close>.\<close>

record dom_level =
  lv_price :: rat
  lv_size :: rat

text \<open>The ticker; an attribute the object does not have is \<open>None\<close>.\<close>

record ticker =
  domBids :: "dom_level list option"
  domAsks :: "dom_level list option"

text \<open>
  The system's state: the two dictionaries of \<open>current_order_book\<close> as association lists
  in insertion order, the snapshot history and the optional detector. The registered
  callbacks are external observers and are not part of the state.
\<close>

record system =
  sys_max_history :: nat
  sys_order_book_history :: "book_snapshot list"
  sys_bids :: "(rat \<times> rat) list"
  sys_asks :: "(rat \<times> rat) list"
  sys_hidden_detector :: "detector option"
  sys_signal_generator :: signal_generator

definition new_system :: "nat \<Rightarrow> bool \<Rightarrow> system" where
  "new_system max_history detect =
     \<lparr>sys_max_history = max_history, sys_order_book_history = [], sys_bids = [],
      sys_asks = [], sys_hidden_detector = (if detect then Some (new_detector medium) else None),
      sys_signal_generator = new_signal_generator 50\<rparr>"

text \<open>
  \<open>if price in book: book[price] += size else: book[price] = size\<close> on a dictionary.
\<close>

fun dict_add :: "rat \<Rightarrow> rat \<Rightarrow> (rat \<times> rat) list \<Rightarrow> (rat \<times> rat) list" where
  "dict_add price sz [] = [(price, sz)]"
| "dict_add price sz ((p, v) # rest) =
     (if p = price then (p, v + sz) # rest else (p, v) # dict_add price sz rest)"

text \<open>The loops "Aggregate bids" and "Aggregate asks", started on the cleared dictionary.\<close>

definition aggregate :: "dom_level list \<Rightarrow> (rat \<times> rat) list" where
  "aggregate levels =
     foldl (\<lambda>book level.
              if 0 < lv_price level \<and> 0 < lv_size level
              then dict_add (py_round (lv_price level) 2) (lv_size level) book
              else book)
       [] levels"

text \<open>
  \<open>sorted(book.items(), reverse=True)[:20]\<close> and \<open>sorted(book.items())[:20]\<close>; pairs are
  ordered lexicographically, and the items of a dictionary are pairwise different.
\<close>

definition top_bids :: "(rat \<times> rat) list \<Rightarrow> (rat \<times> rat) list" where
  "top_bids book = take 20 (rev (sort book))"

definition top_asks :: "(rat \<times> rat) list \<Rightarrow> (rat \<times> rat) list" where
  "top_asks book = take 20 (sort book)"

definition on_ticker_update :: "rat \<Rightarrow> ticker \<Rightarrow> system \<Rightarrow> system" where
  "on_ticker_update timestamp t s =
     (case (domBids t, domAsks t) of
        (Some dom_bids, Some dom_asks) \<Rightarrow>
          (let s1 = s\<lparr>sys_bids := aggregate dom_bids, sys_asks := aggregate dom_asks\<rparr>
           in if sys_bids s1 \<noteq> [] \<and> sys_asks s1 \<noteq> []
              then let bids = top_bids (sys_bids s1);
                       asks = top_asks (sys_asks s1);
                       snapshot = \<lparr>bs_timestamp = timestamp, bs_bids = bids, bs_asks = asks\<rparr>
                   in s1\<lparr>sys_order_book_history :=
                           deque_append (sys_max_history s1) (sys_order_book_history s1) snapshot,
                         sys_hidden_detector :=
                           map_option (add_order_book_snapshot bids asks timestamp)
                             (sys_hidden_detector s1)\<rparr>
              else s1)
      | _ \<Rightarrow> s)"

record snapshot =
  snap_timestamp :: rat
  snap_session :: market_session
  snap_bids :: "(rat \<times> rat) list"
  snap_asks :: "(rat \<times> rat) list"
  snap_best_bid :: rat
  snap_best_ask :: rat
  snap_spread :: rat
  snap_bid_count :: nat
  snap_ask_count :: nat

definition get_current_snapshot :: "rat \<Rightarrow> et_clock \<Rightarrow> system \<Rightarrow> snapshot option" where
  "get_current_snapshot now clock s =
     (if sys_bids s = [] \<or> sys_asks s = [] then None
      else let bids = top_bids (sys_bids s); asks = top_asks (sys_asks s)
           in if bids = [] \<or> asks = [] then None
              else Some \<lparr>snap_timestamp = now, snap_session = get_market_session clock,
                         snap_bids = bids, snap_asks = asks,
                         snap_best_bid = fst (hd bids), snap_best_ask = fst (hd asks),
                         snap_spread = fst (hd asks) - fst (hd bids),
                         snap_bid_count = length bids, snap_ask_count = length asks\<rparr>)"

definition calculate_microprice :: "rat \<Rightarrow> rat \<Rightarrow> rat \<Rightarrow> rat \<Rightarrow> error + rat" where
  "calculate_microprice best_bid best_ask bid_size ask_size =
     (let total_size = bid_size + ask_size
      in if total_size = 0 then py_div (best_bid + best_ask) 2
         else py_div (best_bid * ask_size + best_ask * bid_size) total_size)"

text \<open>\<open>sum(size / (i + 1) for i, (_, size) in enumerate(side[:levels]))\<close>.\<close>

definition pressure :: "nat \<Rightarrow> (rat \<times> rat) list \<Rightarrow> rat" where
  "pressure levels side =
     sum_list (map (\<lambda>(i, (p, sz)). sz / of_nat (i + 1)) (enumerate 0 (take levels side)))"

definition calculate_queue_imbalance ::
  "et_clock \<Rightarrow> (rat \<times> rat) list \<Rightarrow> (rat \<times> rat) list \<Rightarrow> nat \<Rightarrow> rat" where
  "calculate_queue_imbalance clock bids asks levels =
     (if bids = [] \<or> asks = [] then 0
      else let session = get_market_session clock;
               levels' = (if session = PREMARKET \<or> session = AFTERHOURS
                          then min levels (min (length bids) (length asks)) else levels);
               bid_pressure = pressure levels' bids;
               ask_pressure = pressure levels' asks;
               total_pressure = bid_pressure + ask_pressure
           in if total_pressure = 0 then 0
              else (bid_pressure - ask_pressure) / total_pressure)"

text \<open>
  \<open>sum(size * (depth_5 + 1 - i) for i, (_, size) in enumerate(side[:depth_5]))\<close>.
\<close>

definition weighted_pressure :: "nat \<Rightarrow> (rat \<times> rat) list \<Rightarrow> rat" where
  "weighted_pressure depth_5 side =
     sum_list (map (\<lambda>(i, (p, sz)). sz * of_nat (depth_5 + 1 - i))
                 (enumerate 0 (take depth_5 side)))"

definition volume :: "nat \<Rightarrow> (rat \<times> rat) list \<Rightarrow> rat" where
  "volume depth side = sum_list (map snd (take depth side))"

text \<open>\<open>(a - b) / (a + b) if (a + b) > 0 else 0\<close>.\<close>

definition guarded_imbalance :: "rat \<Rightarrow> rat \<Rightarrow> rat" where
  "guarded_imbalance a b = (if 0 < a + b then (a - b) / (a + b) else 0)"

definition session_warning :: "market_session \<Rightarrow> string option" where
  "session_warning session =
     (if session = PREMARKET then Some ''Premarket - Lower liquidity''
      else if session = AFTERHOURS then Some ''After hours - Limited depth''
      else if session = CLOSED then Some ''Market closed''
      else None)"

text \<open>
  \<open>get_order_book_features\<close>. The clock is read twice: \<open>clock_s\<close> by
  \<open>get_current_snapshot\<close>, \<open>clock_q\<close> by \<open>calculate_queue_imbalance\<close>. The quotient
  \<open>spread / microprice\<close> raises when the microprice is zero.
\<close>

definition get_order_book_features ::
  "rat \<Rightarrow> et_clock \<Rightarrow> et_clock \<Rightarrow> system \<Rightarrow> error + features option" where
  "get_order_book_features now clock_s clock_q s =
     (case get_current_snapshot now clock_s s of
        None \<Rightarrow> Inr None
      | Some snap \<Rightarrow>
          (let bids = snap_bids snap; asks = snap_asks snap; session = snap_session snap
           in if bids = [] \<or> asks = [] then Inr None
              else let best_bid = fst (hd bids); best_ask = fst (hd asks);
                       best_bid_size = snd (hd bids); best_ask_size = snd (hd asks)
                   in (case calculate_microprice best_bid best_ask best_bid_size best_ask_size of
                      Inl e \<Rightarrow> Inl e
                    | Inr microprice \<Rightarrow>
                   (let depth_5 = min 5 (min (length bids) (length asks));
                       depth_10 = min 10 (min (length bids) (length asks));
                       bid_volume_5 = volume depth_5 bids;
                       ask_volume_5 = volume depth_5 asks;
                       weighted_bid = weighted_pressure depth_5 bids;
                       weighted_ask = weighted_pressure depth_5 asks;
                       queue_imbalance = calculate_queue_imbalance clock_q bids asks depth_5
                   in (case py_div (snap_spread snap) microprice of
                        Inl e \<Rightarrow> Inl e
                      | Inr q \<Rightarrow>
                          Inr (Some
                            \<lparr>f_timestamp = Some (snap_timestamp snap),
                             f_session = Some session,
                             f_microprice = Some microprice,
                             f_mid_price = Some ((best_bid + best_ask) / 2),
                             f_spread = Some (snap_spread snap),
                             f_spread_bps = Some (q * 10000),
                             f_total_bid_volume_5 = Some bid_volume_5,
                             f_total_ask_volume_5 = Some ask_volume_5,
                             f_volume_imbalance =
                               Some (guarded_imbalance bid_volume_5 ask_volume_5),
                             f_weighted_bid_pressure = Some weighted_bid,
                             f_weighted_ask_pressure = Some weighted_ask,
                             f_weighted_imbalance =
                               Some (guarded_imbalance weighted_bid weighted_ask),
                             f_queue_imbalance = Some queue_imbalance,
                             f_bid_depth_10 = Some (volume depth_10 bids),
                             f_ask_depth_10 = Some (volume depth_10 asks),
                             f_bid_levels = Some (length bids),
                             f_ask_levels = Some (length asks),
                             f_best_bid = Some best_bid,
                             f_best_ask = Some best_ask,
                             f_best_bid_size = Some best_bid_size,
                             f_best_ask_size = Some best_ask_size,
                             f_size_imbalance_top =
                               Some (guarded_imbalance best_bid_size best_ask_size),
                             f_bid_top = take 5 bids,
                             f_ask_top = take 5 asks,
                             f_session_warning = Some (session_warning session)\<rparr>))))))"

text \<open>
  The weighted imbalance in the words of the specification: the level of rank \<open>r\<close>
  (the best level has rank 1) among the top \<open>K\<close> has weight \<open>K + 1 - r\<close>, so that rank 1
  weighs \<open>K\<close> and rank \<open>K\<close> weighs 1; the imbalance is 0 when both weighted sums are 0.
\<close>

definition spec_weighted_pressure :: "nat \<Rightarrow> (rat \<times> rat) list \<Rightarrow> rat" where
  "spec_weighted_pressure k side =
     sum_list (map (\<lambda>(r, (p, sz)). sz * of_nat (k + 1 - r)) (enumerate 1 (take k side)))"

definition spec_weighted_imbalance :: "(rat \<times> rat) list \<Rightarrow> (rat \<times> rat) list \<Rightarrow> rat" where
  "spec_weighted_imbalance bids asks =
     (let k = min 5 (min (length bids) (length asks));
          wb = spec_weighted_pressure k bids; wa = spec_weighted_pressure k asks
      in if wb = 0 \<and> wa = 0 then 0 else (wb - wa) / (wb + wa))"

section \<open>Double-precision arithmetic\<close>

text \<open>
  The feed delivers prices and sizes as Python floats, which are IEEE-754 binary64 numbers.
  On the normal range such a number is a rational \<open>m * 2 ^ e\<close> with \<open>|m| < 2 ^ 53\<close>, and
  each arithmetic operation returns the exact result rounded to the nearest such number, a
  tie going to the even mantissa. Overflow and subnormal numbers are not modelled.
\<close>

definition pow2 :: "int \<Rightarrow> rat" where
  "pow2 e = (if 0 \<le> e then 2 ^ nat e else 1 / 2 ^ nat (- e))"

text \<open>For \<open>x > 0\<close>, the exponent \<open>e\<close> with \<open>2 ^ e \<le> x < 2 ^ (e + 1)\<close>.\<close>

definition floor_log2 :: "rat \<Rightarrow> int" where
  "floor_log2 x = (if 1 \<le> x then bitlen \<lfloor>x\<rfloor> - 1 else - bitlen (\<lceil>1 / x\<rceil> - 1))"

definition round_f64 :: "rat \<Rightarrow> rat" where
  "round_f64 x =
     (if x = 0 then 0
      else let u = pow2 (floor_log2 \<bar>x\<bar> - 52) in of_int (round_half_even (x / u)) * u)"

text \<open>
  \<open>calculate_microprice\<close> on floats: the body of the source with the result of every
  operation rounded.
\<close>

definition calculate_microprice_f64 :: "rat \<Rightarrow> rat \<Rightarrow> rat \<Rightarrow> rat \<Rightarrow> error + rat" where
  "calculate_microprice_f64 best_bid best_ask bid_size ask_size =
     (let total_size = round_f64 (bid_size + ask_size)
      in if total_size = 0
         then map_sum id round_f64 (py_div (round_f64 (best_bid + best_ask)) 2)
         else map_sum id round_f64
                (py_div (round_f64 (round_f64 (best_bid * ask_size) +
                                    round_f64 (best_ask * bid_size))) total_size))"

section \<open>Example states\<close>

text \<open>
  A detector fed ten trade ticks at time 100, as \<open>_on_trade\<close> feeds it (one trade and one
  price update per tick): five buys of size 2 and five sells of size 4, the price 1000 on
  the first nine ticks and 1001 on the last.
\<close>

definition example_detector :: detector where
  "example_detector =
     foldl (\<lambda>d i. add_price_update (if i = 9 then 1001 else 1000) 100
                     (add_trade (if i = 9 then 1001 else 1000) (if even i then 2 else 4)
                        (if even i then buy else sell) 100 d))
       (new_detector medium) [0..<10]"

text \<open>
  The feed calls \<open>_on_ticker_update\<close> once for each batch; a batch is the time of the call
  and the ticker it delivers.
\<close>

definition apply_updates :: "(rat \<times> ticker) list \<Rightarrow> system \<Rightarrow> system" where
  "apply_updates batches s = foldl (\<lambda>s' (ts, t). on_ticker_update ts t s') s batches"

text \<open>
  A batch with two bid rows and two ask rows that round to the same price, and one row of
  size 0.
\<close>

definition example_ticker :: ticker where
  "example_ticker =
     \<lparr>domBids = Some [\<lparr>lv_price = 100004 / 1000, lv_size = 5\<rparr>,
                       \<lparr>lv_price = 99, lv_size = 1\<rparr>,
                       \<lparr>lv_price = 100001 / 1000, lv_size = 7\<rparr>,
                       \<lparr>lv_price = 98, lv_size = 0\<rparr>],
      domAsks = Some [\<lparr>lv_price = 101, lv_size = 2\<rparr>,
                       \<lparr>lv_price = 101003 / 1000, lv_size = 3\<rparr>]\<rparr>"

text \<open>A batch with two levels on each side, and the system after receiving it.\<close>

definition two_level_ticker :: ticker where
  "two_level_ticker =
     \<lparr>domBids = Some [\<lparr>lv_price = 100, lv_size = 1\<rparr>, \<lparr>lv_price = 99, lv_size = 1\<rparr>],
      domAsks = Some [\<lparr>lv_price = 101, lv_size = 1\<rparr>, \<lparr>lv_price = 102, lv_size = 3\<rparr>]\<rparr>"

definition two_level_system :: system where
  "two_level_system = on_ticker_update 0 two_level_ticker (new_system 1000 False)"

definition monday_10am :: et_clock where
  "monday_10am = \<lparr>weekday = 0, current_time = 36000\<rparr>"

text \<open>
  Two generators fed microprices through \<open>add_features\<close>: a V-shaped series with one
  trough at 20 and no peak, and a series with one peak at 1004 and one trough at 996.
\<close>

definition feed_prices :: "rat list \<Rightarrow> signal_generator" where
  "feed_prices ps =
     foldl (\<lambda>g p. add_features (empty_features\<lparr>f_microprice := Some p\<rparr>) g)
       (new_signal_generator 50) ps"

definition v_shaped_generator :: signal_generator where
  "v_shaped_generator =
     feed_prices [30, 29, 28, 27, 26, 25, 24, 23, 22, 21, 20,
                  21, 22, 23, 24, 25, 26, 27, 28, 29, 30]"

definition peak_trough_generator :: signal_generator where
  "peak_trough_generator =
     feed_prices [1000, 1001, 1002, 1003, 1004, 1003, 1002, 1001, 1000, 999, 998, 997, 996,
                  997, 998, 999, 1000, 1001, 1002, 1003, 1004]"

section \<open>Properties of the hidden-order detector\<close>

lemma length_deque_append: "length (deque_append m d x) = min m (Suc (length d))"
  by (simp add: deque_append_def Let_def)

text \<open>
  C9. While fewer than 10 trades or fewer than 10 price updates are held,
  \<open>detect_hidden_orders\<close> returns, without raising, the result with no hidden buyer, no
  hidden seller, no icebergs and the empty analysis.
\<close>

theorem detect_hidden_orders_insufficient_data:
  assumes "length (d_trades d) < 10 \<or> length (d_price_history d) < 10"
  shows "detect_hidden_orders now_v now_p d =
           Inr \<lparr>hidden_buyer = None, hidden_seller = None, icebergs = [], analysis = None\<rparr>"
  using assms by (simp add: detect_hidden_orders_def empty_results_def)

theorem detect_hidden_orders_insufficient_data_witness:
  "(length (d_trades (add_trade 100 5 buy 0 (new_detector medium))) < 10 \<or>
    length (d_price_history (add_trade 100 5 buy 0 (new_detector medium))) < 10) \<and>
   detect_hidden_orders 1 1 (add_trade 100 5 buy 0 (new_detector medium)) =
     Inr \<lparr>hidden_buyer = None, hidden_seller = None, icebergs = [], analysis = None\<rparr>"
proof -
  have h: "length (d_trades (add_trade 100 5 buy 0 (new_detector medium))) < 10 \<or>
    length (d_price_history (add_trade 100 5 buy 0 (new_detector medium))) < 10"
    by (simp add: add_trade_def new_detector_def length_deque_append)
  show ?thesis
    using h detect_hidden_orders_insufficient_data [OF h, of 1 1] by simp
qed

lemma foldl_count:
  "foldl (\<lambda>r i. if P i then r + 1 else r) (r0::nat) xs = r0 + length (filter P xs)"
  by (induction xs arbitrary: r0) simp_all

lemma count_refills_filter:
  "count_refills sizes = length (filter (is_refill sizes) [1..<length sizes - 1])"
  by (simp add: count_refills_def foldl_count)

lemma count_refills_card:
  "count_refills sizes = card {i. 1 \<le> i \<and> i + 1 < length sizes \<and> is_refill sizes i}"
proof -
  have "{i. 1 \<le> i \<and> i + 1 < length sizes \<and> is_refill sizes i} =
        set (filter (is_refill sizes) [1..<length sizes - 1])"
    by auto
  moreover have "distinct (filter (is_refill sizes) [1..<length sizes - 1])" by simp
  ultimately show ?thesis
    by (simp add: count_refills_filter distinct_card del: set_filter)
qed

text \<open>
  C2, as the code has it. The refill count of a size history is the number of positions
  \<open>i\<close> with a predecessor and a successor at which the sample is strictly below 50% of the
  preceding sample and the following sample is strictly above 80% of the preceding sample.
  The history 100, 40, 85, 90, 45, 95 has exactly one such position: the drop from 90 to 45
  is a drop to exactly 50% and is not counted. One refill is below the medium profile's
  threshold of 3, so the level is not reported as an iceberg.
\<close>

theorem count_refills_strict_window:
  "count_refills sizes =
     card {i. 1 \<le> i \<and> i + 1 < length sizes \<and>
              sizes ! i < sizes ! (i - 1) * (5 / 10) \<and>
              sizes ! (i - 1) * (8 / 10) < sizes ! (i + 1)} \<and>
   count_refills [100, 40, 85, 90, 45, 95] = 1 \<and>
   iceberg_of_level (get_thresholds medium)
     ((bid, 100), map (\<lambda>sz. \<lparr>ls_timestamp = 0, ls_size = sz\<rparr>) [100, 40, 85, 90, 45, 95]) = []"
proof -
  have "count_refills sizes =
     card {i. 1 \<le> i \<and> i + 1 < length sizes \<and>
              sizes ! i < sizes ! (i - 1) * (5 / 10) \<and>
              sizes ! (i - 1) * (8 / 10) < sizes ! (i + 1)}"
    using count_refills_card [of sizes] by (simp add: is_refill_def)
  moreover have "count_refills [100, 40, 85, 90, 45, 95] = 1"
    by (simp add: count_refills_def is_refill_def upt_rec)
  moreover have "iceberg_of_level (get_thresholds medium)
     ((bid, 100), map (\<lambda>sz. \<lparr>ls_timestamp = 0, ls_size = sz\<rparr>) [100, 40, 85, 90, 45, 95]) = []"
    by (simp add: iceberg_of_level_def count_refills_def is_refill_def upt_rec)
  ultimately show ?thesis by blast
qed

text \<open>
  The claim as stated fails: the history 100, 40, 85, 90, 45, 95 does not yield 2 refills,
  and a drop to exactly 50% followed by a recovery to exactly 80% is not counted.
\<close>

theorem count_refills_not_two:
  "count_refills [100, 40, 85, 90, 45, 95] \<noteq> 2 \<and> count_refills [100, 50, 80] = 0"
  by (simp add: count_refills_def is_refill_def upt_rec)

section \<open>Properties of the signal generator\<close>

lemma find_support_resistance_short:
  "length (sg_price_history g) < 20 \<Longrightarrow> find_support_resistance g = Inr (g, [], [])"
  by (simp add: find_support_resistance_def)

lemma rule_support_resistance_none: "rule_support_resistance cp [] [] sr = Inr sr"
  by (cases sr) (simp add: rule_support_resistance_def)

lemma rule_weighted_imbalance_zero: "rule_weighted_imbalance 0 sr = sr"
  by (cases sr) (simp add: rule_weighted_imbalance_def)

lemma rule_spread_zero: "rule_spread 0 sr = sr"
  by (cases sr) (simp add: rule_spread_def)

lemma rule_session_regular: "rule_session REGULAR sr = sr"
  by (cases sr) (simp add: rule_session_def)

lemma final_signal_score: "sr_score (final_signal cp sr) = Some (fst sr)"
  by (cases sr) (simp add: final_signal_def Let_def)

lemma queue_only_not_empty: "empty_features\<lparr>f_queue_imbalance := Some q\<rparr> \<noteq> empty_features"
proof
  assume "empty_features\<lparr>f_queue_imbalance := Some q\<rparr> = empty_features"
  then have "f_queue_imbalance (empty_features\<lparr>f_queue_imbalance := Some q\<rparr>) =
             f_queue_imbalance empty_features"
    by simp
  then show False by (simp add: empty_features_def)
qed

lemma queue_only_fields:
  "f_weighted_imbalance (empty_features\<lparr>f_queue_imbalance := Some q\<rparr>) = None"
  "f_spread_bps (empty_features\<lparr>f_queue_imbalance := Some q\<rparr>) = None"
  "f_session (empty_features\<lparr>f_queue_imbalance := Some q\<rparr>) = None"
  "f_microprice (empty_features\<lparr>f_queue_imbalance := Some q\<rparr>) = None"
  "f_mid_price (empty_features\<lparr>f_queue_imbalance := Some q\<rparr>) = None"
  "f_queue_imbalance (empty_features\<lparr>f_queue_imbalance := Some q\<rparr>) = Some q"
  by (simp_all add: empty_features_def)

text \<open>
  C5, as the code has it. The queue-imbalance rule adds +3 to the running score when the
  queue imbalance is strictly above 0.30, +1 when it is strictly above 0.15 (and at most
  0.30), -3 when strictly below -0.30, -1 when strictly below -0.15 (and at least -0.30),
  and nothing otherwise; the thresholds are exclusive. With a generator holding fewer than
  20 prices and features carrying the queue imbalance alone, that contribution is the score
  \<open>generate_signal\<close> returns.
\<close>

theorem queue_imbalance_rule_exclusive:
  assumes "length (sg_price_history g) < 20"
  shows "fst (rule_queue_imbalance q (s, rs)) =
           s + (if 3 / 10 < q then 3 else if 15 / 100 < q then 1
                else if q < - (3 / 10) then - 3 else if q < - (15 / 100) then - 1 else 0) \<and>
         map_sum id sr_score
           (generate_signal g (Some (empty_features\<lparr>f_queue_imbalance := Some q\<rparr>)) None) =
         Inr (Some (if 3 / 10 < q then 3 else if 15 / 100 < q then 1
                    else if q < - (3 / 10) then - 3 else if q < - (15 / 100) then - 1 else 0))"
proof -
  have r: "fst (rule_queue_imbalance q (s', rs')) =
           s' + (if 3 / 10 < q then 3 else if 15 / 100 < q then 1
                else if q < - (3 / 10) then - 3 else if q < - (15 / 100) then - 1 else 0)"
    for s' rs'
    by (simp add: rule_queue_imbalance_def)
  show ?thesis
    using assms r [of 0 "[]"] r [of s rs]
    by (simp add: generate_signal_def queue_only_not_empty queue_only_fields get_default_def
        rule_weighted_imbalance_zero rule_spread_zero rule_session_regular final_signal_score
        find_support_resistance_short rule_support_resistance_none rule_hidden_orders_def)
qed

theorem queue_imbalance_rule_exclusive_witness:
  "length (sg_price_history (new_signal_generator 50)) < 20 \<and>
   fst (rule_queue_imbalance (35 / 100) (0, [])) = 3 \<and>
   map_sum id sr_score
     (generate_signal (new_signal_generator 50)
        (Some (empty_features\<lparr>f_queue_imbalance := Some (35 / 100)\<rparr>)) None) =
   Inr (Some 3)"
proof -
  have h: "length (sg_price_history (new_signal_generator 50)) < 20"
    by (simp add: new_signal_generator_def)
  show ?thesis
    using h queue_imbalance_rule_exclusive [OF h, of "35 / 100" 0 "[]"] by simp
qed

text \<open>
  The claim as stated fails at both thresholds: a queue imbalance of exactly 0.30
  contributes +1, not +3, and one of exactly 0.15 contributes nothing.
\<close>

theorem queue_imbalance_thresholds_not_inclusive:
  "fst (rule_queue_imbalance (30 / 100) (0, [])) = 1 \<and>
   fst (rule_queue_imbalance (30 / 100) (0, [])) \<noteq> 3 \<and>
   fst (rule_queue_imbalance (15 / 100) (0, [])) = 0 \<and>
   fst (rule_queue_imbalance (15 / 100) (0, [])) \<noteq> 1"
  by (simp add: rule_queue_imbalance_def)

section \<open>Properties of the feature extraction\<close>

text \<open>
  C7, as the code has it. \<open>calculate_microprice\<close> never raises and returns the midpoint
  when both sizes are zero, in exact arithmetic and in double-precision arithmetic alike.
  For \<open>best_bid \<le> best_ask\<close> and two positive sizes the value of its formula, computed
  exactly, lies between \<open>best_bid\<close> and \<open>best_ask\<close> inclusive.
\<close>

theorem calculate_microprice_bounds:
  assumes "best_bid \<le> best_ask" "0 < bid_size" "0 < ask_size"
  shows "calculate_microprice b a bsz asz =
           Inr (if bsz + asz = 0 then (b + a) / 2 else (b * asz + a * bsz) / (bsz + asz)) \<and>
         calculate_microprice b a 0 0 = Inr ((b + a) / 2) \<and>
         (\<exists>m. calculate_microprice best_bid best_ask bid_size ask_size = Inr m \<and>
              best_bid \<le> m \<and> m \<le> best_ask) \<and>
         (\<exists>m. calculate_microprice_f64 b a bsz asz = Inr m) \<and>
         calculate_microprice_f64 b a 0 0 = Inr (round_f64 (round_f64 (b + a) / 2))"
proof -
  have pos: "0 < bid_size + ask_size" using assms by simp
  have l: "best_bid * (bid_size + ask_size) \<le> best_bid * ask_size + best_ask * bid_size"
    using assms by (simp add: algebra_simps mult_right_mono)
  have u: "best_bid * ask_size + best_ask * bid_size \<le> best_ask * (bid_size + ask_size)"
    using assms by (simp add: algebra_simps mult_right_mono)
  have lo: "best_bid \<le> (best_bid * ask_size + best_ask * bid_size) / (bid_size + ask_size)"
    using pos l by (simp add: pos_le_divide_eq)
  have hi: "(best_bid * ask_size + best_ask * bid_size) / (bid_size + ask_size) \<le> best_ask"
    using pos u by (simp add: pos_divide_le_eq)
  have t: "calculate_microprice b a bsz asz =
           Inr (if bsz + asz = 0 then (b + a) / 2 else (b * asz + a * bsz) / (bsz + asz))"
    by (simp add: calculate_microprice_def py_div_def Let_def)
  have z: "calculate_microprice b a 0 0 = Inr ((b + a) / 2)"
    by (simp add: calculate_microprice_def py_div_def Let_def)
  have m: "\<exists>m. calculate_microprice best_bid best_ask bid_size ask_size = Inr m \<and>
              best_bid \<le> m \<and> m \<le> best_ask"
    using pos lo hi by (simp add: calculate_microprice_def py_div_def Let_def)
  have ft: "\<exists>m. calculate_microprice_f64 b a bsz asz = Inr m"
    by (simp add: calculate_microprice_f64_def py_div_def Let_def)
  have fz: "calculate_microprice_f64 b a 0 0 = Inr (round_f64 (round_f64 (b + a) / 2))"
    by (simp add: calculate_microprice_f64_def py_div_def Let_def round_f64_def)
  from t z m ft fz show ?thesis by blast
qed

theorem calculate_microprice_bounds_witness:
  "(100::rat) \<le> 101 \<and> (0::rat) < 3 \<and> (0::rat) < 1 \<and>
   calculate_microprice 100 101 3 1 = Inr (403 / 4) \<and>
   calculate_microprice 100 101 0 0 = Inr (201 / 2) \<and>
   (\<exists>m. calculate_microprice 100 101 3 1 = Inr m \<and> 100 \<le> m \<and> m \<le> 101)"
proof -
  have h: "(100::rat) \<le> 101" "(0::rat) < 3" "(0::rat) < 1" by simp_all
  show ?thesis
    using calculate_microprice_bounds [OF h, of 100 101 3 1]
      calculate_microprice_bounds [OF h, of 100 101 0 0]
    by simp
qed

text \<open>
  The claim as stated fails in double-precision arithmetic: with \<open>best_bid\<close> and \<open>best_ask\<close>
  both the double nearest to 0.1, bid size 1 and ask size 2, the microprice is that double
  plus \<open>2 ^ -56\<close> (printed 0.10000000000000002), above \<open>best_ask\<close>.
\<close>

theorem calculate_microprice_f64_above_ask:
  "round_f64 (1 / 10) = 3602879701896397 / 2 ^ 55 \<and>
   round_f64 (1 / 10) \<le> round_f64 (1 / 10) \<and> (0 :: rat) < 1 \<and> (0 :: rat) < 2 \<and>
   calculate_microprice_f64 (round_f64 (1 / 10)) (round_f64 (1 / 10)) 1 2 =
     Inr (7205759403792795 / 2 ^ 56) \<and>
   round_f64 (1 / 10) < 7205759403792795 / 2 ^ 56"
  by code_simp

lemma calculate_queue_imbalance_clock:
  "calculate_queue_imbalance c bids asks (min 5 (min (length bids) (length asks))) =
   calculate_queue_imbalance c' bids asks (min 5 (min (length bids) (length asks)))"
  by (simp add: calculate_queue_imbalance_def Let_def)

text \<open>
  C10. The \<open>queue_imbalance\<close> entry of \<open>get_order_book_features\<close> does not depend on the
  market session: whatever the clock readings (and so the sessions) of two evaluations on
  the same order book, both raise the same error, or both return no features, or both
  return the same queue imbalance. The depth handed to \<open>calculate_queue_imbalance\<close> is
  already \<open>min(5, len(bids), len(asks))\<close>, so its narrowing in extended hours changes
  nothing.
\<close>

theorem queue_imbalance_session_independent:
  "map_sum id (map_option f_queue_imbalance) (get_order_book_features now c1 c2 s) =
   map_sum id (map_option f_queue_imbalance) (get_order_book_features now' c1' c2' s) \<and>
   calculate_queue_imbalance c2 bids asks (min 5 (min (length bids) (length asks))) =
   calculate_queue_imbalance c2' bids asks (min 5 (min (length bids) (length asks)))"
proof -
  have "map_sum id (map_option f_queue_imbalance) (get_order_book_features now c1 c2 s) =
   map_sum id (map_option f_queue_imbalance) (get_order_book_features now' c1' c2' s)"
    unfolding get_order_book_features_def get_current_snapshot_def
    by (simp add: Let_def calculate_queue_imbalance_clock [of c2 _ _ c2'] split: sum.splits)
  then show ?thesis
    using calculate_queue_imbalance_clock [of c2 bids asks c2'] by simp
qed

section \<open>Hidden buyer detection\<close>

lemma example_detector_trades: "length (d_trades example_detector) = 10"
  by code_simp

lemma example_detector_prices: "length (d_price_history example_detector) = 10"
  by code_simp

lemma example_detector_volume:
  "calculate_volume_metrics 110 30 example_detector =
     Some \<lparr>buy_volume = 10, sell_volume = 20, net_volume = - 10, buy_trades = 5,
           sell_trades = 5\<rparr>"
  by code_simp

lemma example_detector_price_change:
  "calculate_price_change 110 30 example_detector = Inr (Some (1 / 1000))"
  by code_simp

lemma example_detector_icebergs: "detect_iceberg_orders example_detector = []"
  by code_simp

text \<open>
  C3, as the code has it. When at least 10 trades and 10 price updates are held, the
  trades of the trailing 30-second window have buy volume 10 and sell volume 20, and the
  price change over that window is +0.001, \<open>detect_hidden_orders\<close> flags a hidden buyer
  with strength HIGH (the price moved up), flags no hidden seller, and records the analysis.
\<close>

theorem hidden_buyer_strength_high:
  assumes "10 \<le> length (d_trades d)" "10 \<le> length (d_price_history d)"
    and "calculate_volume_metrics now_v 30 d = Some vm"
    and "buy_volume vm = 10" "sell_volume vm = 20"
    and "calculate_price_change now_p 30 d = Inr (Some (1 / 1000))"
  shows "detect_hidden_orders now_v now_p d =
           Inr \<lparr>hidden_buyer =
                  Some \<lparr>hp_strength = HIGH, hp_volume = 20, hp_price_change = 1 / 1000\<rparr>,
                hidden_seller = None, icebergs = detect_iceberg_orders d,
                analysis = Some \<lparr>an_buy_volume = 10, an_sell_volume = 20,
                                  an_price_change_pct = 1 / 10\<rparr>\<rparr>"
  using assms by (simp add: detect_hidden_orders_def empty_results_def Let_def)

theorem hidden_buyer_strength_high_witness:
  "10 \<le> length (d_trades example_detector) \<and>
   10 \<le> length (d_price_history example_detector) \<and>
   calculate_volume_metrics 110 30 example_detector =
     Some \<lparr>buy_volume = 10, sell_volume = 20, net_volume = - 10, buy_trades = 5,
           sell_trades = 5\<rparr> \<and>
   calculate_price_change 110 30 example_detector = Inr (Some (1 / 1000)) \<and>
   detect_hidden_orders 110 110 example_detector =
     Inr \<lparr>hidden_buyer =
            Some \<lparr>hp_strength = HIGH, hp_volume = 20, hp_price_change = 1 / 1000\<rparr>,
          hidden_seller = None, icebergs = [],
          analysis = Some \<lparr>an_buy_volume = 10, an_sell_volume = 20,
                            an_price_change_pct = 1 / 10\<rparr>\<rparr>"
proof -
  have h1: "10 \<le> length (d_trades example_detector)"
    by (simp add: example_detector_trades)
  have h2: "10 \<le> length (d_price_history example_detector)"
    by (simp add: example_detector_prices)
  show ?thesis
    using h1 h2 example_detector_volume example_detector_price_change
      example_detector_icebergs
      hidden_buyer_strength_high
        [OF h1 h2 example_detector_volume _ _ example_detector_price_change]
    by simp
qed

text \<open>
  The claim as stated fails: on the example detector the window has buy volume 10, sell
  volume 20 and price change +0.001, and the hidden buyer's strength is HIGH, not MEDIUM.
\<close>

theorem hidden_buyer_not_medium:
  "calculate_volume_metrics 110 30 example_detector =
     Some \<lparr>buy_volume = 10, sell_volume = 20, net_volume = - 10, buy_trades = 5,
           sell_trades = 5\<rparr> \<and>
   calculate_price_change 110 30 example_detector = Inr (Some (1 / 1000)) \<and>
   detect_hidden_orders 110 110 example_detector =
     Inr \<lparr>hidden_buyer =
            Some \<lparr>hp_strength = HIGH, hp_volume = 20, hp_price_change = 1 / 1000\<rparr>,
          hidden_seller = None, icebergs = [],
          analysis = Some \<lparr>an_buy_volume = 10, an_sell_volume = 20,
                            an_price_change_pct = 1 / 10\<rparr>\<rparr> \<and>
   HIGH \<noteq> MEDIUM"
  by code_simp

section \<open>The final signal mapping\<close>














section \<open>Properties of the order book\<close>

lemma dict_add_keys:
  "set (map fst (dict_add k v book)) = insert k (set (map fst book))"
proof (induction book)
  case Nil
  show ?case by simp
next
  case (Cons kv book)
  obtain p w where kv: "kv = (p, w)" by (cases kv)
  show ?case
  proof (cases "p = k")
    case True
    with kv show ?thesis by auto
  next
    case False
    with kv Cons.IH show ?thesis by auto
  qed
qed

lemma dict_add_distinct:
  "distinct (map fst book) \<Longrightarrow> distinct (map fst (dict_add k v book))"
proof (induction book)
  case Nil
  then show ?case by simp
next
  case (Cons kv book)
  obtain p w where kv: "kv = (p, w)" by (cases kv)
  show ?case
  proof (cases "p = k")
    case True
    with Cons.prems kv show ?thesis by simp
  next
    case False
    have "p \<notin> set (map fst (dict_add k v book))"
      using Cons.prems kv False by (simp only: dict_add_keys) simp
    with Cons kv False show ?thesis by simp
  qed
qed

lemma aggregate_step_distinct:
  "distinct (map fst book) \<Longrightarrow>
   distinct (map fst (foldl (\<lambda>book level.
              if 0 < lv_price level \<and> 0 < lv_size level
              then dict_add (py_round (lv_price level) 2) (lv_size level) book
              else book) book levels))"
  by (induction levels arbitrary: book) (simp_all add: dict_add_distinct)

lemma aggregate_distinct: "distinct (map fst (aggregate levels))"
  unfolding aggregate_def by (rule aggregate_step_distinct) simp

lemma sort_keys_distinct:
  fixes book :: "(rat \<times> rat) list"
  assumes "distinct (map fst book)"
  shows "distinct (map fst (sort book))"
  using assms by (simp add: distinct_map)

lemma top_bids_distinct:
  assumes "distinct (map fst book)"
  shows "distinct (map fst (top_bids book))"
proof -
  have "map fst (top_bids book) = take 20 (rev (map fst (sort book)))"
    by (simp add: top_bids_def take_map rev_map)
  moreover have "distinct (take 20 (rev (map fst (sort book))))"
    using sort_keys_distinct [OF assms] by (simp only: distinct_take distinct_rev)
  ultimately show ?thesis by simp
qed

lemma top_asks_distinct:
  assumes "distinct (map fst book)"
  shows "distinct (map fst (top_asks book))"
proof -
  have "map fst (top_asks book) = take 20 (map fst (sort book))"
    by (simp add: top_asks_def take_map)
  moreover have "distinct (take 20 (map fst (sort book)))"
    using sort_keys_distinct [OF assms] by (simp only: distinct_take)
  ultimately show ?thesis by simp
qed

lemma on_ticker_update_distinct:
  assumes "distinct (map fst (sys_bids s)) \<and> distinct (map fst (sys_asks s))"
  shows "distinct (map fst (sys_bids (on_ticker_update ts t s))) \<and>
         distinct (map fst (sys_asks (on_ticker_update ts t s)))"
  using assms
  by (auto simp: on_ticker_update_def Let_def aggregate_distinct split: option.splits)

lemma apply_updates_distinct:
  assumes "distinct (map fst (sys_bids s)) \<and> distinct (map fst (sys_asks s))"
  shows "distinct (map fst (sys_bids (apply_updates batches s))) \<and>
         distinct (map fst (sys_asks (apply_updates batches s)))"
  using assms
proof (induction batches arbitrary: s)
  case Nil
  then show ?case by (simp add: apply_updates_def)
next
  case (Cons b batches)
  obtain ts t where b: "b = (ts, t)" by (cases b)
  have "apply_updates (b # batches) s = apply_updates batches (on_ticker_update ts t s)"
    by (simp add: apply_updates_def b)
  then show ?case
    using Cons.IH [OF on_ticker_update_distinct [OF Cons.prems]] by simp
qed

lemma on_ticker_update_twice:
  "sys_bids (on_ticker_update ts' t (on_ticker_update ts t s)) =
     sys_bids (on_ticker_update ts t s) \<and>
   sys_asks (on_ticker_update ts' t (on_ticker_update ts t s)) =
     sys_asks (on_ticker_update ts t s)"
  by (auto simp: on_ticker_update_def Let_def split: option.splits)

lemma get_current_snapshot_book:
  "sys_bids s = sys_bids s' \<Longrightarrow> sys_asks s = sys_asks s' \<Longrightarrow>
   get_current_snapshot now c s = get_current_snapshot now c s'"
  by (simp add: get_current_snapshot_def)

text \<open>
  C8. Re-applying the batch just applied leaves the book as it is, so the snapshot taken
  after applying a batch twice is the snapshot taken after applying it once; and after any
  sequence of batches, starting from the initial system, a snapshot holds no two levels with
  the same (rounded) price on the same side.
\<close>

theorem update_idempotent_and_prices_distinct:
  "sys_bids (on_ticker_update ts' t (on_ticker_update ts t s)) =
     sys_bids (on_ticker_update ts t s) \<and>
   sys_asks (on_ticker_update ts' t (on_ticker_update ts t s)) =
     sys_asks (on_ticker_update ts t s) \<and>
   get_current_snapshot now c (on_ticker_update ts' t (on_ticker_update ts t s)) =
     get_current_snapshot now c (on_ticker_update ts t s) \<and>
   (get_current_snapshot now c (apply_updates batches (new_system m detect)) = Some snap \<longrightarrow>
      distinct (map fst (snap_bids snap)) \<and> distinct (map fst (snap_asks snap)))"
proof -
  have d: "distinct (map fst (sys_bids (apply_updates batches (new_system m detect)))) \<and>
           distinct (map fst (sys_asks (apply_updates batches (new_system m detect))))"
    by (rule apply_updates_distinct) (simp add: new_system_def)
  have "distinct (map fst (snap_bids snap)) \<and> distinct (map fst (snap_asks snap))"
    if "get_current_snapshot now c (apply_updates batches (new_system m detect)) = Some snap"
    using that d
    by (auto simp: get_current_snapshot_def Let_def top_bids_distinct top_asks_distinct
        split: if_splits)
  then show ?thesis
    using on_ticker_update_twice [of ts' t ts s]
      get_current_snapshot_book [OF conjunct1 [OF on_ticker_update_twice]
        conjunct2 [OF on_ticker_update_twice], of now c ts' t ts s]
    by blast
qed

theorem update_idempotent_and_prices_distinct_witness:
  "get_current_snapshot 1 \<lparr>weekday = 0, current_time = 36000\<rparr>
     (apply_updates [(0, example_ticker)] (new_system 1000 False)) =
     Some \<lparr>snap_timestamp = 1, snap_session = REGULAR,
           snap_bids = [(100, 12), (99, 1)], snap_asks = [(101, 5)],
           snap_best_bid = 100, snap_best_ask = 101, snap_spread = 1,
           snap_bid_count = 2, snap_ask_count = 1\<rparr> \<and>
   distinct (map fst [(100 :: rat, 12 :: rat), (99, 1)]) \<and>
   distinct (map fst [(101 :: rat, 5 :: rat)]) \<and>
   get_current_snapshot 1 \<lparr>weekday = 0, current_time = 36000\<rparr>
     (on_ticker_update 0 example_ticker
        (on_ticker_update 0 example_ticker (new_system 1000 False))) =
   get_current_snapshot 1 \<lparr>weekday = 0, current_time = 36000\<rparr>
     (on_ticker_update 0 example_ticker (new_system 1000 False))"
proof -
  have h: "get_current_snapshot 1 \<lparr>weekday = 0, current_time = 36000\<rparr>
     (apply_updates [(0, example_ticker)] (new_system 1000 False)) =
     Some \<lparr>snap_timestamp = 1, snap_session = REGULAR,
           snap_bids = [(100, 12), (99, 1)], snap_asks = [(101, 5)],
           snap_best_bid = 100, snap_best_ask = 101, snap_spread = 1,
           snap_bid_count = 2, snap_ask_count = 1\<rparr>"
    by code_simp
  show ?thesis
    using h update_idempotent_and_prices_distinct
      [of 0 example_ticker 0 "new_system 1000 False" 1
          "\<lparr>weekday = 0, current_time = 36000\<rparr>" "[(0, example_ticker)]" 1000 False
          "\<lparr>snap_timestamp = 1, snap_session = REGULAR,
           snap_bids = [(100, 12), (99, 1)], snap_asks = [(101, 5)],
           snap_best_bid = 100, snap_best_ask = 101, snap_spread = 1,
           snap_bid_count = 2, snap_ask_count = 1\<rparr>"]
    by simp
qed

section \<open>The weighted imbalance\<close>

lemma sum_list_enumerate:
  "sum_list (map g (enumerate n xs)) = (\<Sum>i<length xs. (g (n + i, xs ! i) :: rat))"
proof (induction xs arbitrary: n)
  case Nil
  show ?case by simp
next
  case (Cons x xs)
  have "sum_list (map g (enumerate n (x # xs))) =
        g (n, x) + (\<Sum>i<length xs. g (Suc n + i, xs ! i))"
    by (simp add: Cons.IH)
  also have "\<dots> = (\<Sum>i<length (x # xs). g (n + i, (x # xs) ! i))"
    by (simp add: sum.lessThan_Suc_shift del: sum.lessThan_Suc)
  finally show ?case .
qed

lemma weighted_pressure_sum:
  assumes "k \<le> length side"
  shows "weighted_pressure k side = (\<Sum>i<k. snd (side ! i) * of_nat (k + 1 - i))"
proof -
  have "weighted_pressure k side =
        (\<Sum>i<length (take k side).
           (case (0 + i, take k side ! i) of (i, (p, sz)) \<Rightarrow> sz * of_nat (k + 1 - i)))"
    unfolding weighted_pressure_def by (rule sum_list_enumerate)
  also have "\<dots> = (\<Sum>i<k. snd (side ! i) * of_nat (k + 1 - i))"
    using assms by (intro sum.cong) (auto simp: min_def split: prod.splits)
  finally show ?thesis .
qed

lemma two_level_snapshot:
  "get_current_snapshot 1 monday_10am two_level_system =
     Some \<lparr>snap_timestamp = 1, snap_session = REGULAR,
           snap_bids = [(100, 1), (99, 1)], snap_asks = [(101, 1), (102, 3)],
           snap_best_bid = 100, snap_best_ask = 101, snap_spread = 1,
           snap_bid_count = 2, snap_ask_count = 2\<rparr>"
  by code_simp

text \<open>
  C4, as the code has it. When a snapshot exists and the microprice is not zero,
  \<open>get_order_book_features\<close> returns features in which, with \<open>K = min(5, len(bids),
  len(asks))\<close>, each weighted pressure is the sum over the top \<open>K\<close> levels of the size times
  a weight descending with the rank: the level at index \<open>i\<close> (rank \<open>i + 1\<close>) has weight
  \<open>K + 1 - i\<close>, so rank 1 has weight \<open>K + 1\<close> and rank \<open>K\<close> has weight 2. The weighted
  imbalance is \<open>(weighted_bid - weighted_ask) / (weighted_bid + weighted_ask)\<close> when that
  sum is positive, and 0 otherwise.
\<close>

theorem weighted_imbalance_weights:
  assumes "get_current_snapshot now clock_s s = Some snap"
    and "calculate_microprice (fst (hd (snap_bids snap))) (fst (hd (snap_asks snap)))
           (snd (hd (snap_bids snap))) (snd (hd (snap_asks snap))) = Inr m"
    and "m \<noteq> 0"
  shows "\<exists>f wb wa.
           get_order_book_features now clock_s clock_q s = Inr (Some f) \<and>
           wb = (\<Sum>i<min 5 (min (length (snap_bids snap)) (length (snap_asks snap))).
                   snd (snap_bids snap ! i) *
                   of_nat (min 5 (min (length (snap_bids snap)) (length (snap_asks snap)))
                           + 1 - i)) \<and>
           wa = (\<Sum>i<min 5 (min (length (snap_bids snap)) (length (snap_asks snap))).
                   snd (snap_asks snap ! i) *
                   of_nat (min 5 (min (length (snap_bids snap)) (length (snap_asks snap)))
                           + 1 - i)) \<and>
           f_weighted_bid_pressure f = Some wb \<and>
           f_weighted_ask_pressure f = Some wa \<and>
           f_weighted_imbalance f = Some (if 0 < wb + wa then (wb - wa) / (wb + wa) else 0)"
proof -
  define k where "k = min 5 (min (length (snap_bids snap)) (length (snap_asks snap)))"
  have ne: "snap_bids snap \<noteq> []" "snap_asks snap \<noteq> []"
    using assms(1) by (auto simp: get_current_snapshot_def Let_def split: if_splits)
  have wb: "weighted_pressure k (snap_bids snap) =
            (\<Sum>i<k. snd (snap_bids snap ! i) * of_nat (k + 1 - i))"
    by (rule weighted_pressure_sum) (simp add: k_def)
  have wa: "weighted_pressure k (snap_asks snap) =
            (\<Sum>i<k. snd (snap_asks snap ! i) * of_nat (k + 1 - i))"
    by (rule weighted_pressure_sum) (simp add: k_def)
  show ?thesis
    using assms ne wb wa
    unfolding get_order_book_features_def k_def [symmetric]
    by (simp add: Let_def py_div_def guarded_imbalance_def k_def [symmetric])
qed

theorem weighted_imbalance_weights_witness:
  "get_current_snapshot 1 monday_10am two_level_system =
     Some \<lparr>snap_timestamp = 1, snap_session = REGULAR,
           snap_bids = [(100, 1), (99, 1)], snap_asks = [(101, 1), (102, 3)],
           snap_best_bid = 100, snap_best_ask = 101, snap_spread = 1,
           snap_bid_count = 2, snap_ask_count = 2\<rparr> \<and>
   calculate_microprice 100 101 1 1 = Inr (201 / 2) \<and> (201 / 2 :: rat) \<noteq> 0 \<and>
   (\<exists>f. get_order_book_features 1 monday_10am monday_10am two_level_system = Inr (Some f) \<and>
        f_weighted_bid_pressure f = Some 5 \<and> f_weighted_ask_pressure f = Some 9 \<and>
        f_weighted_imbalance f = Some (- (2 / 7)))"
proof -
  have m: "calculate_microprice
             (fst (hd (snap_bids \<lparr>snap_timestamp = 1, snap_session = REGULAR,
                snap_bids = [(100, 1), (99, 1)], snap_asks = [(101, 1), (102, 3)],
                snap_best_bid = 100, snap_best_ask = 101, snap_spread = 1,
                snap_bid_count = 2, snap_ask_count = 2\<rparr>)))
             (fst (hd (snap_asks \<lparr>snap_timestamp = 1, snap_session = REGULAR,
                snap_bids = [(100, 1), (99, 1)], snap_asks = [(101, 1), (102, 3)],
                snap_best_bid = 100, snap_best_ask = 101, snap_spread = 1,
                snap_bid_count = 2, snap_ask_count = 2\<rparr>)))
             (snd (hd (snap_bids \<lparr>snap_timestamp = 1, snap_session = REGULAR,
                snap_bids = [(100, 1), (99, 1)], snap_asks = [(101, 1), (102, 3)],
                snap_best_bid = 100, snap_best_ask = 101, snap_spread = 1,
                snap_bid_count = 2, snap_ask_count = 2\<rparr>)))
             (snd (hd (snap_asks \<lparr>snap_timestamp = 1, snap_session = REGULAR,
                snap_bids = [(100, 1), (99, 1)], snap_asks = [(101, 1), (102, 3)],
                snap_best_bid = 100, snap_best_ask = 101, snap_spread = 1,
                snap_bid_count = 2, snap_ask_count = 2\<rparr>))) = Inr (201 / 2)"
    by (simp add: calculate_microprice_def py_div_def)
  have z: "(201 / 2 :: rat) \<noteq> 0" by simp
  have c: "calculate_microprice 100 101 1 1 = Inr (201 / 2)"
    by (simp add: calculate_microprice_def py_div_def)
  show ?thesis
    using two_level_snapshot c z
      weighted_imbalance_weights [OF two_level_snapshot m z, of monday_10am]
    by (simp add: lessThan_Suc numeral_2_eq_2)
qed

text \<open>
  The claim as stated fails: on the book with bids (100, 1), (99, 1) and asks (101, 1),
  (102, 3) the depth is \<open>K = 2\<close> and the code's weights are 3 and 2, giving weighted sums 5
  and 9 and the imbalance -2/7, where the weights 2 and 1 of the claim give 3 and 5 and the
  imbalance -1/4.
\<close>

theorem weighted_imbalance_not_k_to_one:
  "map_option snap_bids (get_current_snapshot 1 monday_10am two_level_system) =
     Some [(100, 1), (99, 1)] \<and>
   map_option snap_asks (get_current_snapshot 1 monday_10am two_level_system) =
     Some [(101, 1), (102, 3)] \<and>
   map_sum id (map_option f_weighted_bid_pressure)
     (get_order_book_features 1 monday_10am monday_10am two_level_system) =
     Inr (Some (Some 5)) \<and>
   spec_weighted_pressure 2 [(100, 1), (99, 1)] = 3 \<and>
   map_sum id (map_option f_weighted_imbalance)
     (get_order_book_features 1 monday_10am monday_10am two_level_system) =
     Inr (Some (Some (- (2 / 7)))) \<and>
   spec_weighted_imbalance [(100, 1), (99, 1)] [(101, 1), (102, 3)] = - (1 / 4)"
  by code_simp

section \<open>The support and resistance rule\<close>

lemma rule_support_resistance_eq:
  "cp \<noteq> 0 \<Longrightarrow>
   rule_support_resistance cp su re (s, rs) =
     Inr (if su \<noteq> [] \<and> re \<noteq> []
          then (s + (if \<bar>cp - nearest cp su\<bar> / cp < 5 / 1000 then 2 else 0)
                  - (if \<bar>cp - nearest cp re\<bar> / cp < 5 / 1000 then 2 else 0),
                rs @ (if \<bar>cp - nearest cp su\<bar> / cp < 5 / 1000
                      then [Near_support (nearest cp su)] else [])
                   @ (if \<bar>cp - nearest cp re\<bar> / cp < 5 / 1000
                      then [Near_resistance (nearest cp re)] else []))
          else (s, rs))"
  by (simp add: rule_support_resistance_def py_div_def Let_def)

lemma rule_support_resistance_gate:
  "su = [] \<or> re = [] \<Longrightarrow> rule_support_resistance cp su re (s, rs) = Inr (s, rs)"
  by (auto simp: rule_support_resistance_def)

lemma nearest_foldl:
  "foldl (\<lambda>best x. if \<bar>x - cp\<bar> < \<bar>best - cp\<bar> then x else best) b xs \<in> insert b (set xs) \<and>
   (\<forall>x \<in> insert b (set xs).
      \<bar>foldl (\<lambda>best x. if \<bar>x - cp\<bar> < \<bar>best - cp\<bar> then x else best) b xs - cp\<bar> \<le> \<bar>x - (cp::rat)\<bar>)"
proof (induction xs arbitrary: b)
  case Nil
  show ?case by simp
next
  case (Cons y ys)
  show ?case
    using Cons.IH [of "if \<bar>y - cp\<bar> < \<bar>b - cp\<bar> then y else b"]
    by (auto split: if_splits intro: order_trans less_imp_le)
qed

lemma nearest_is_nearest:
  assumes "levels \<noteq> []"
  shows "nearest cp levels \<in> set levels \<and>
         (\<forall>x \<in> set levels. \<bar>nearest cp levels - cp\<bar> \<le> \<bar>x - cp\<bar>)"
proof -
  obtain y ys where l: "levels = y # ys" using assms by (cases levels) auto
  show ?thesis
    using nearest_foldl [of cp y ys] by (simp add: nearest_def l)
qed

lemma rule_hidden_orders_none: "rule_hidden_orders None sr = sr"
  by (simp add: rule_hidden_orders_def)

lemma rule_session_not_extended:
  "session \<noteq> PREMARKET \<Longrightarrow> session \<noteq> AFTERHOURS \<Longrightarrow> rule_session session sr = sr"
  by (cases sr) (simp add: rule_session_def)

lemma v_shaped_levels:
  "map_sum id snd (find_support_resistance v_shaped_generator) = Inr ([20], [])"
  by code_simp

lemma peak_trough_levels:
  "map_sum id snd (find_support_resistance peak_trough_generator) = Inr ([996], [1004])"
  by code_simp

lemma generate_signal_score_levels:
  assumes "f \<noteq> empty_features"
    and "find_support_resistance g = Inr (g', su, re)"
    and "get_default (f_microprice f) (get_default (f_mid_price f) 0) \<noteq> 0"
    and "get_default (f_session f) REGULAR \<noteq> PREMARKET"
    and "get_default (f_session f) REGULAR \<noteq> AFTERHOURS"
  shows "map_sum id sr_score (generate_signal g (Some f) None) =
        Inr (Some
          (fst (rule_spread (get_default (f_spread_bps f) 0)
                 (rule_weighted_imbalance (get_default (f_weighted_imbalance f) 0)
                    (rule_queue_imbalance (get_default (f_queue_imbalance f) 0) (0, []))))
           + (if su \<noteq> [] \<and> re \<noteq> [] \<and>
                 \<bar>get_default (f_microprice f) (get_default (f_mid_price f) 0)
                   - nearest (get_default (f_microprice f) (get_default (f_mid_price f) 0)) su\<bar>
                 / get_default (f_microprice f) (get_default (f_mid_price f) 0) < 5 / 1000
              then 2 else 0)
           - (if su \<noteq> [] \<and> re \<noteq> [] \<and>
                 \<bar>get_default (f_microprice f) (get_default (f_mid_price f) 0)
                   - nearest (get_default (f_microprice f) (get_default (f_mid_price f) 0)) re\<bar>
                 / get_default (f_microprice f) (get_default (f_mid_price f) 0) < 5 / 1000
              then 2 else 0)))"
proof -
  let ?cp = "get_default (f_microprice f) (get_default (f_mid_price f) 0)"
  let ?sr3 = "rule_spread (get_default (f_spread_bps f) 0)
                 (rule_weighted_imbalance (get_default (f_weighted_imbalance f) 0)
                    (rule_queue_imbalance (get_default (f_queue_imbalance f) 0) (0, [])))"
  obtain sr4 where r: "rule_support_resistance ?cp su re ?sr3 = Inr sr4"
    and sc: "fst sr4 = fst ?sr3
           + (if su \<noteq> [] \<and> re \<noteq> [] \<and> \<bar>?cp - nearest ?cp su\<bar> / ?cp < 5 / 1000 then 2 else 0)
           - (if su \<noteq> [] \<and> re \<noteq> [] \<and> \<bar>?cp - nearest ?cp re\<bar> / ?cp < 5 / 1000 then 2 else 0)"
    using rule_support_resistance_eq [OF assms(3), of su re "fst ?sr3" "snd ?sr3"]
    by (auto split: if_splits)
  have "generate_signal g (Some f) None = Inr (final_signal ?cp sr4)"
    unfolding generate_signal_def Let_def
    by (simp only: option.case assms(1) if_False assms(2) sum.case fst_conv snd_conv r
        rule_hidden_orders_none rule_session_not_extended [OF assms(4) assms(5)])
  then show ?thesis
    by (simp only: map_sum.simps final_signal_score id_apply sc)
qed

text \<open>
  C6, as the code has it. The proximity rule is gated on both level sets: when the support
  set or the resistance set is empty it changes nothing. When both are non-empty (and the
  current price is not zero), +2 is added and a reason appended if the nearest support is
  strictly within 0.5% of the current price, and, independently of that, 2 is subtracted
  and a reason appended if the nearest resistance is strictly within 0.5%. The nearest
  level is a member of its set at least as close to the current price as every other
  member. For non-empty features with a non-zero current price, no hidden-order results and
  a session that is neither PREMARKET nor AFTERHOURS, the score \<open>generate_signal\<close> returns
  is the score after the spread rule plus these two contributions.
\<close>

theorem support_resistance_rule_gated:
  "(support = [] \<or> resistance = [] \<longrightarrow>
      rule_support_resistance cp support resistance (s, rs) = Inr (s, rs)) \<and>
   (support \<noteq> [] \<and> resistance \<noteq> [] \<and> cp \<noteq> 0 \<longrightarrow>
      rule_support_resistance cp support resistance (s, rs) =
        Inr (s + (if \<bar>cp - nearest cp support\<bar> / cp < 5 / 1000 then 2 else 0)
               - (if \<bar>cp - nearest cp resistance\<bar> / cp < 5 / 1000 then 2 else 0),
             rs @ (if \<bar>cp - nearest cp support\<bar> / cp < 5 / 1000
                   then [Near_support (nearest cp support)] else [])
                @ (if \<bar>cp - nearest cp resistance\<bar> / cp < 5 / 1000
                   then [Near_resistance (nearest cp resistance)] else []))) \<and>
   (support \<noteq> [] \<longrightarrow>
      nearest cp support \<in> set support \<and>
      (\<forall>x \<in> set support. \<bar>nearest cp support - cp\<bar> \<le> \<bar>x - cp\<bar>)) \<and>
   (f \<noteq> empty_features \<and>
    map_sum id snd (find_support_resistance g) = Inr (support, resistance) \<and>
    cp = get_default (f_microprice f) (get_default (f_mid_price f) 0) \<and> cp \<noteq> 0 \<and>
    get_default (f_session f) REGULAR \<noteq> PREMARKET \<and>
    get_default (f_session f) REGULAR \<noteq> AFTERHOURS \<longrightarrow>
      map_sum id sr_score (generate_signal g (Some f) None) =
        Inr (Some
          (fst (rule_spread (get_default (f_spread_bps f) 0)
                 (rule_weighted_imbalance (get_default (f_weighted_imbalance f) 0)
                    (rule_queue_imbalance (get_default (f_queue_imbalance f) 0) (0, []))))
           + (if support \<noteq> [] \<and> resistance \<noteq> [] \<and>
                 \<bar>cp - nearest cp support\<bar> / cp < 5 / 1000 then 2 else 0)
           - (if support \<noteq> [] \<and> resistance \<noteq> [] \<and>
                 \<bar>cp - nearest cp resistance\<bar> / cp < 5 / 1000 then 2 else 0))))"
proof -
  have a: "rule_support_resistance cp support resistance (s, rs) = Inr (s, rs)"
    if "support = [] \<or> resistance = []"
    using that by (rule rule_support_resistance_gate)
  have b: "rule_support_resistance cp support resistance (s, rs) =
        Inr (s + (if \<bar>cp - nearest cp support\<bar> / cp < 5 / 1000 then 2 else 0)
               - (if \<bar>cp - nearest cp resistance\<bar> / cp < 5 / 1000 then 2 else 0),
             rs @ (if \<bar>cp - nearest cp support\<bar> / cp < 5 / 1000
                   then [Near_support (nearest cp support)] else [])
                @ (if \<bar>cp - nearest cp resistance\<bar> / cp < 5 / 1000
                   then [Near_resistance (nearest cp resistance)] else []))"
    if "support \<noteq> [] \<and> resistance \<noteq> [] \<and> cp \<noteq> 0"
    using that by (simp add: rule_support_resistance_eq)
  have c: "nearest cp support \<in> set support \<and>
      (\<forall>x \<in> set support. \<bar>nearest cp support - cp\<bar> \<le> \<bar>x - cp\<bar>)"
    if "support \<noteq> []"
    using that by (rule nearest_is_nearest)
  have d: "map_sum id sr_score (generate_signal g (Some f) None) =
        Inr (Some
          (fst (rule_spread (get_default (f_spread_bps f) 0)
                 (rule_weighted_imbalance (get_default (f_weighted_imbalance f) 0)
                    (rule_queue_imbalance (get_default (f_queue_imbalance f) 0) (0, []))))
           + (if support \<noteq> [] \<and> resistance \<noteq> [] \<and>
                 \<bar>cp - nearest cp support\<bar> / cp < 5 / 1000 then 2 else 0)
           - (if support \<noteq> [] \<and> resistance \<noteq> [] \<and>
                 \<bar>cp - nearest cp resistance\<bar> / cp < 5 / 1000 then 2 else 0)))"
    if h: "f \<noteq> empty_features \<and>
      map_sum id snd (find_support_resistance g) = Inr (support, resistance) \<and>
      cp = get_default (f_microprice f) (get_default (f_mid_price f) 0) \<and> cp \<noteq> 0 \<and>
      get_default (f_session f) REGULAR \<noteq> PREMARKET \<and>
      get_default (f_session f) REGULAR \<noteq> AFTERHOURS"
  proof -
    obtain g' where fs: "find_support_resistance g = Inr (g', support, resistance)"
      using h by (cases "find_support_resistance g") auto
    from h have cpeq: "cp = get_default (f_microprice f) (get_default (f_mid_price f) 0)"
      by simp
    show ?thesis
      unfolding cpeq
      by (rule generate_signal_score_levels [OF _ fs]) (use h in simp_all)
  qed
  from a b c d show ?thesis by blast
qed

theorem support_resistance_rule_gated_witness:
  "rule_support_resistance 20 [20] [] (0, []) = Inr (0, []) \<and>
   rule_support_resistance 998 [996] [1004] (0, []) = Inr (2, [Near_support 996]) \<and>
   nearest 998 [996] \<in> set [996] \<and>
   empty_features\<lparr>f_microprice := Some 998\<rparr> \<noteq> empty_features \<and>
   map_sum id snd (find_support_resistance peak_trough_generator) = Inr ([996], [1004]) \<and>
   map_sum id sr_score
     (generate_signal peak_trough_generator
        (Some (empty_features\<lparr>f_microprice := Some 998\<rparr>)) None) = Inr (Some 2)"
proof -
  have n: "nearest 998 [996] = 996" "nearest 998 [1004] = 1004"
    by (simp_all add: nearest_def)
  have ne: "empty_features\<lparr>f_microprice := Some 998\<rparr> \<noteq> empty_features"
    by code_simp
  have fl: "f_microprice (empty_features\<lparr>f_microprice := Some 998\<rparr>) = Some 998"
    "f_mid_price (empty_features\<lparr>f_microprice := Some 998\<rparr>) = None"
    "f_session (empty_features\<lparr>f_microprice := Some 998\<rparr>) = None"
    "f_spread_bps (empty_features\<lparr>f_microprice := Some 998\<rparr>) = None"
    "f_weighted_imbalance (empty_features\<lparr>f_microprice := Some 998\<rparr>) = None"
    "f_queue_imbalance (empty_features\<lparr>f_microprice := Some 998\<rparr>) = None"
    by (simp_all add: empty_features_def)
  have base: "rule_spread 0 (rule_weighted_imbalance 0 (rule_queue_imbalance 0 (0, []))) = (0, [])"
    by (simp add: rule_spread_def rule_weighted_imbalance_def rule_queue_imbalance_def)
  show ?thesis
    using ne peak_trough_levels
      support_resistance_rule_gated [of "[20]" "[]" 20 0 "[]" empty_features v_shaped_generator]
      support_resistance_rule_gated
        [of "[996]" "[1004]" 998 0 "[]" "empty_features\<lparr>f_microprice := Some 998\<rparr>"
            peak_trough_generator]
    by (simp add: n fl get_default_def base)
qed

text \<open>
  The claim as stated fails when the resistance set is empty: the V-shaped generator has the
  single support level 20 and no resistance level, the current price 20 is at that support,
  and the score stays 0 with no reason appended.
\<close>

theorem support_alone_does_not_fire:
  "map_sum id snd (find_support_resistance v_shaped_generator) = Inr ([20], []) \<and>
   nearest 20 [20] = 20 \<and>
   generate_signal v_shaped_generator (Some (empty_features\<lparr>f_microprice := Some 20\<rparr>)) None =
     Inr \<lparr>sr_signal = NEUTRAL, sr_confidence = 30, sr_reasons = [], sr_score = Some 0,
          sr_price = Some 20\<rparr>"
  by code_simp

end
